theory Spec2Isabelle
  imports Complex_Main
begin

section \<open>Strings\<close>

text \<open>
  A Python \<open>str\<close> is a sequence of Unicode code points, so it is modelled as a list of
  natural numbers. \<open>lit\<close> turns an ASCII literal of the source into that form.
\<close>

type_synonym str = "nat list"

definition lit :: "string \<Rightarrow> str" where
  "lit s = map of_char s"

section \<open>Python dictionaries\<close>

text \<open>
  A \<open>dict\<close> keeps its keys in insertion order. Storing under a key that is already
  present replaces the value and leaves the key where it was; storing under a new key
  appends it. The dictionary is an association list without repeated keys.
\<close>

type_synonym ('k, 'v) dict = "('k \<times> 'v) list"

fun dict_setitem :: "('k, 'v) dict \<Rightarrow> 'k \<Rightarrow> 'v \<Rightarrow> ('k, 'v) dict" where
  "dict_setitem [] k v = [(k, v)]"
| "dict_setitem ((k', v') # d) k v =
     (if k' = k then (k', v) # d else (k', v') # dict_setitem d k v)"

definition dict_get :: "('k, 'v) dict \<Rightarrow> 'k \<Rightarrow> 'v option" where
  "dict_get d k = map_of d k"

definition dict_keys :: "('k, 'v) dict \<Rightarrow> 'k list" where
  "dict_keys d = map fst d"

definition dict_values :: "('k, 'v) dict \<Rightarrow> 'v list" where
  "dict_values d = map snd d"

text \<open>\<open>d.update(src)\<close>, which is also what each \<open>**src\<close> of a dict display does.\<close>

definition dict_update :: "('k, 'v) dict \<Rightarrow> ('k, 'v) dict \<Rightarrow> ('k, 'v) dict" where
  "dict_update d src = foldl (\<lambda>acc (k, v). dict_setitem acc k v) d src"

text \<open>The comprehension \<open>{key(x): x for x in xs}\<close>: one store per element, left to right.\<close>

definition dict_by :: "('a \<Rightarrow> 'k) \<Rightarrow> 'a list \<Rightarrow> ('k, 'a) dict" where
  "dict_by key xs = foldl (\<lambda>acc x. dict_setitem acc (key x) x) [] xs"

section \<open>Candidate sets and the merged record\<close>

text \<open>Numbers of JavaScript and Python are modelled by the real number they denote.\<close>

datatype json =
  JNull | JBool bool | JNum real | JStr str | JList "json list" | JObject "(str \<times> json) list"

record menu_item =
  name :: str
  price :: str

text \<open>
  A review's rating is a Python \<open>float\<close>; it is modelled by the real number the float
  denotes.
\<close>

record review =
  rating :: real
  review_text :: str
  date :: str

text \<open>
  Both extractors return a \<open>dict\<close> that \<open>_merge_data\<close> reads with
  \<open>.get(key, default)\<close>; a key that is absent is \<open>None\<close> here. The keys
  \<open>raw\<close> and \<open>error\<close> of the in-page result are never read. The entries of the
  lists have the fields that markup extraction gives them, so \<open>item['name']\<close> finds its
  key. (The in-page script itself leaves \<open>menuItems\<close> and \<open>reviews\<close> empty.)
\<close>

record candidate =
  basicInfo :: "(str, json) dict option"
  menuItems :: "menu_item list option"
  reviews :: "review list option"
  images :: "str list option"

definition get_or :: "'a option \<Rightarrow> 'a \<Rightarrow> 'a" where
  "get_or field dflt = (case field of None \<Rightarrow> dflt | Some x \<Rightarrow> x)"

record statistics =
  stat_rating :: json
  stat_reviewCount :: json

record merged =
  merged_basicInfo :: "(str, json) dict"
  merged_menuItems :: "menu_item list"
  merged_reviews :: "review list"
  merged_images :: "str list"
  merged_statistics :: statistics

text \<open>
  \<open>_merge_data\<close> (an Isabelle name cannot start with an underscore). The first block
  builds \<open>merged\<close>; the two assignments after it replace \<open>menuItems\<close> by the values of
  the dictionary keyed by name, cut to 20, and cut \<open>reviews\<close> to 10.
\<close>

definition merge_data :: "candidate \<Rightarrow> candidate \<Rightarrow> merged" where
  "merge_data eval_data soup_data =
     (let merged0 = \<lparr>
            merged_basicInfo =
              dict_update (dict_update [] (get_or (basicInfo soup_data) []))
                (get_or (basicInfo eval_data) []),
            merged_menuItems =
              get_or (menuItems eval_data) [] @ get_or (menuItems soup_data) [],
            merged_reviews = get_or (reviews eval_data) [] @ get_or (reviews soup_data) [],
            merged_images = take 10 (get_or (images eval_data) []),
            merged_statistics = \<lparr>
              stat_rating = get_or (dict_get (get_or (basicInfo eval_data) []) (lit ''rating''))
                              (JNum 0),
              stat_reviewCount =
                get_or (dict_get (get_or (basicInfo eval_data) []) (lit ''reviewCount''))
                  (JNum 0) \<rparr> \<rparr>;
          merged1 = merged0 \<lparr> merged_menuItems :=
            take 20 (dict_values (dict_by name (merged_menuItems merged0))) \<rparr>
      in merged1 \<lparr> merged_reviews := take 10 (merged_reviews merged1) \<rparr>)"

section \<open>Order of first occurrence\<close>

text \<open>
  The words of the specification for the order of the merged menu: each value once, in
  the order in which the values first occur, and the position of a first occurrence.
\<close>

fun first_occurrences :: "'a list \<Rightarrow> 'a list" where
  "first_occurrences [] = []"
| "first_occurrences (x # xs) = x # filter (\<lambda>y. y \<noteq> x) (first_occurrences xs)"

fun first_index :: "'a list \<Rightarrow> 'a \<Rightarrow> nat" where
  "first_index [] a = 0"
| "first_index (x # xs) a = (if x = a then 0 else Suc (first_index xs a))"

section \<open>Digits and the two regular expressions\<close>

text \<open>
  For a \<open>str\<close> pattern \<open>\d\<close> matches every Unicode decimal digit, and \<open>float\<close> accepts the
  same characters. Which code points are decimal digits, and with which value, is a table
  of the Python runtime: it is a parameter, \<open>dec c = Some v\<close> for a digit of value
  \<open>v\<close>. \<open>ascii_decimal\<close> is the part of the table every version agrees on.
\<close>

type_synonym decimal_table = "nat \<Rightarrow> nat option"

definition is_decimal :: "decimal_table \<Rightarrow> nat \<Rightarrow> bool" where
  "is_decimal dec c = (dec c \<noteq> None)"

definition ascii_decimal :: decimal_table where
  "ascii_decimal c = (if 48 \<le> c \<and> c \<le> 57 then Some (c - 48) else None)"

text \<open>
  \<open>re.search\<close> of \<open>\d{n,}\<close> (with \<open>\d+\<close> for \<open>n = 1\<close>): the scan tries each start
  position from the left; at a position the greedy repetition takes every digit that
  follows and succeeds when there are at least \<open>n\<close>. The result is \<open>group(1)\<close>.
\<close>

fun search_digits :: "decimal_table \<Rightarrow> nat \<Rightarrow> str \<Rightarrow> str option" where
  "search_digits dec n [] = (if n = 0 then Some [] else None)"
| "search_digits dec n (c # cs) =
     (let run = takeWhile (is_decimal dec) (c # cs)
      in if n \<le> length run then Some run else search_digits dec n cs)"

text \<open>
  \<open>float\<close> of a run of digits, as the number the digits denote; the float is that
  number exactly below \<open>2^53\<close>, and the nearest float from there on.
\<close>

definition digits_value :: "decimal_table \<Rightarrow> str \<Rightarrow> nat" where
  "digits_value dec ds =
     foldl (\<lambda>acc c. 10 * acc + (case dec c of None \<Rightarrow> 0 | Some v \<Rightarrow> v)) 0 ds"

definition extract_rating :: "decimal_table \<Rightarrow> str \<Rightarrow> real" where
  "extract_rating dec txt =
     (case search_digits dec 1 txt of
        Some ds \<Rightarrow> real (digits_value dec ds)
      | None \<Rightarrow> 0)"

text \<open>
  The words of the specification, "the first run of 8+ digits": the maximal runs of digits
  of a string, left to right, and the first of them that is long enough.
\<close>

function digit_runs :: "decimal_table \<Rightarrow> str \<Rightarrow> str list" where
  "digit_runs dec [] = []"
| "digit_runs dec (c # cs) =
     (if is_decimal dec c
      then takeWhile (is_decimal dec) (c # cs) # digit_runs dec (dropWhile (is_decimal dec) cs)
      else digit_runs dec cs)"
  by pat_completeness auto
termination
  by (relation "measure (\<lambda>(dec, s). length s)") (auto simp: less_Suc_eq_le length_dropWhile_le)

definition first_long_run :: "decimal_table \<Rightarrow> nat \<Rightarrow> str \<Rightarrow> str option" where
  "first_long_run dec n s = find (\<lambda>r. n \<le> length r) (digit_runs dec s)"

section \<open>URL normalisation\<close>

text \<open>\<open>sub in s\<close> for strings.\<close>

fun str_contains :: "str \<Rightarrow> str \<Rightarrow> bool" where
  "str_contains [] sub = (sub = [])"
| "str_contains (c # cs) sub = (take (length sub) (c # cs) = sub \<or> str_contains cs sub)"

text \<open>
  The second \<open>if\<close> of \<open>_navigate_to_store\<close>: a URL of the mobile site or of the map site
  that holds a place id is replaced by the desktop URL of that place.
\<close>

definition to_pc_url :: "decimal_table \<Rightarrow> str \<Rightarrow> str" where
  "to_pc_url dec u =
     (if str_contains u (lit ''m.place.naver.com'') \<or> str_contains u (lit ''map.naver.com'')
      then (case search_digits dec 8 u of
              Some place_id \<Rightarrow>
                lit ''https://pcmap.place.naver.com/restaurant/'' @ place_id @ lit ''/home''
            | None \<Rightarrow> u)
      else u)"

section \<open>Markup extraction\<close>

text \<open>
  BeautifulSoup is a library, not part of the repository: the three operations the
  extractor uses are parameters, over an arbitrary type \<open>'n\<close> of parsed nodes.
  \<open>bs_parse\<close> is \<open>BeautifulSoup(html, 'html.parser')\<close>, \<open>bs_select n sel\<close> is
  \<open>n.select(sel)\<close> and \<open>bs_get_text n strip\<close> is \<open>n.get_text(strip=strip)\<close>.
\<close>

record 'n bs4 =
  bs_parse :: "str \<Rightarrow> 'n"
  bs_select :: "'n \<Rightarrow> str \<Rightarrow> 'n list"
  bs_get_text :: "'n \<Rightarrow> bool \<Rightarrow> str"

text \<open>
  \<open>select_one\<close> is the first element of \<open>select\<close>, or \<open>None\<close>. A tag is always
  true in a condition (\<open>Tag.__bool__\<close>), also when it has no content, so
  \<open>if element:\<close> asks whether the element was found.
\<close>

definition select_one :: "'n bs4 \<Rightarrow> 'n \<Rightarrow> str \<Rightarrow> 'n option" where
  "select_one bs n sel = (case bs_select bs n sel of [] \<Rightarrow> None | e # _ \<Rightarrow> Some e)"

text \<open>The inner loop over the selectors of one field: the first selector that finds an
  element gives the field, and the loop stops there.\<close>

fun first_selected :: "'n bs4 \<Rightarrow> 'n \<Rightarrow> str list \<Rightarrow> str option" where
  "first_selected bs soup [] = None"
| "first_selected bs soup (sel # sels) =
     (case select_one bs soup sel of
        Some element \<Rightarrow> Some (bs_get_text bs element True)
      | None \<Rightarrow> first_selected bs soup sels)"

definition patterns :: "(str \<times> str list) list" where
  "patterns =
     [(lit ''name'', [lit ''span.GHAhO'', lit ''span.Fc1rA'', lit ''h2.place_title'']),
      (lit ''category'', [lit ''span.lnJFt'', lit ''span.DJJvD'']),
      (lit ''address'', [lit ''span.IH7VW'', lit ''span.LDgIH'']),
      (lit ''phone'', [lit ''span.xlx7Q''])]"

definition soup_basicInfo :: "'n bs4 \<Rightarrow> 'n \<Rightarrow> (str, json) dict" where
  "soup_basicInfo bs soup =
     foldl (\<lambda>acc (key, selectors).
              case first_selected bs soup selectors of
                Some t \<Rightarrow> dict_setitem acc key (JStr t)
              | None \<Rightarrow> acc)
       [] patterns"

text \<open>The body of the loop over menu items: \<open>None\<close> when nothing is appended.\<close>

definition soup_menu_item :: "'n bs4 \<Rightarrow> 'n \<Rightarrow> menu_item option" where
  "soup_menu_item bs item =
     (let name_elem = select_one bs item (lit ''span.lPzHi'');
          price_elem = select_one bs item (lit ''div._3qFuX'')
      in case name_elem of
           Some ne \<Rightarrow> Some \<lparr> name = bs_get_text bs ne True,
                             price = (case price_elem of
                                        Some pe \<Rightarrow> bs_get_text bs pe True
                                      | None \<Rightarrow> []) \<rparr>
         | None \<Rightarrow> None)"

definition soup_review :: "'n bs4 \<Rightarrow> decimal_table \<Rightarrow> 'n \<Rightarrow> review option" where
  "soup_review bs dec rv =
     (let rating_elem = select_one bs rv (lit ''span.pui__bMWJiy'');
          text_elem = select_one bs rv (lit ''a.pui__xtsQN-'');
          date_elem = select_one bs rv (lit ''time span'')
      in case text_elem of
           Some te \<Rightarrow> Some \<lparr>
             rating = extract_rating dec
               (case rating_elem of Some re \<Rightarrow> bs_get_text bs re False | None \<Rightarrow> []),
             review_text = bs_get_text bs te True,
             date = (case date_elem of Some de \<Rightarrow> bs_get_text bs de True | None \<Rightarrow> []) \<rparr>
         | None \<Rightarrow> None)"

definition extract_with_soup :: "'n bs4 \<Rightarrow> decimal_table \<Rightarrow> str \<Rightarrow> candidate" where
  "extract_with_soup bs dec html =
     (let soup = bs_parse bs html
      in \<lparr> basicInfo = Some (soup_basicInfo bs soup),
           menuItems = Some (List.map_filter (soup_menu_item bs)
                               (take 20 (bs_select bs soup (lit ''li.E2jtL'')))),
           reviews = Some (List.map_filter (soup_review bs dec)
                             (take 10 (bs_select bs soup (lit ''li.pui__X35jYm'')))),
           images = None \<rparr>)"

section \<open>The rendering engine and the session\<close>

text \<open>
  An exception that a call raises is a value. \<open>Exception msg\<close> is an exception whose class
  derives from \<open>Exception\<close>, with \<open>str(e) = msg\<close>; \<open>BaseOnly msg\<close> is one that derives
  from \<open>BaseException\<close> only (\<open>asyncio.CancelledError\<close>, \<open>KeyboardInterrupt\<close>,
  \<open>SystemExit\<close>), which \<open>except Exception\<close> does not catch.
\<close>

datatype exc = Exception str | BaseOnly str

datatype wait_until = DomContentLoaded | NetworkIdle

datatype printed = BrowserReady | FinalUrl str | ScrapeFailed str

text \<open>The calls that leave the program, in the order they are made.\<close>

datatype call =
  PlaywrightStart | Launch bool | NewContext | NewPage | Goto str wait_until
  | WaitForTimeout nat | Evaluate | Content | ContextClose | BrowserClose | PlaywrightStop
  | Print printed

text \<open>
  Playwright and the clock are outside the program: a \<open>world\<close> fixes what each call
  answers. A call that returns nothing answers \<open>None\<close> or the exception it raises;
  \<open>goto_result u wu\<close> is \<open>page.url\<close> as the program reads it after
  \<open>page.goto(u, wait_until=wu)\<close>; \<open>evaluate_result\<close> is what the in-page script of
  \<open>_extract_with_evaluate\<close> returns.
\<close>

record world =
  start_result :: "exc option"
  launch_result :: "exc option"
  new_context_result :: "exc option"
  new_page_result :: "exc option"
  goto_result :: "str \<Rightarrow> wait_until \<Rightarrow> exc + str"
  wait_result :: "nat \<Rightarrow> exc option"
  evaluate_result :: "exc + candidate"
  content_result :: "exc + str"
  context_close_result :: "exc option"
  browser_close_result :: "exc option"
  stop_result :: "exc option"
  now_isoformat :: str

text \<open>A computation yields the calls it made and either the exception it raised or its value.\<close>

type_synonym 'a run = "call list \<times> (exc + 'a)"

definition ret :: "'a \<Rightarrow> 'a run" where
  "ret x = ([], Inr x)"

definition call_value :: "call \<Rightarrow> exc + 'a \<Rightarrow> 'a run" where
  "call_value c r = ([c], r)"

definition call_unit :: "call \<Rightarrow> exc option \<Rightarrow> unit run" where
  "call_unit c r = ([c], case r of None \<Rightarrow> Inr () | Some e \<Rightarrow> Inl e)"

definition and_then :: "'a run \<Rightarrow> ('a \<Rightarrow> 'b run) \<Rightarrow> 'b run" where
  "and_then m f =
     (case m of
        (cs, Inl e) \<Rightarrow> (cs, Inl e)
      | (cs, Inr x) \<Rightarrow> (case f x of (cs', r) \<Rightarrow> (cs @ cs', r)))"

text \<open>
  \<open>try: body except Exception as e: handler finally: fin\<close>. The handler runs for an
  \<open>Exception\<close> only; \<open>fin\<close> runs on every way out of the block, and an exception it
  raises replaces the value or exception that was on its way out.
\<close>

definition try_except_finally :: "'a run \<Rightarrow> (str \<Rightarrow> 'a run) \<Rightarrow> unit run \<Rightarrow> 'a run" where
  "try_except_finally body handler fin =
     (case body of (cs1, r1) \<Rightarrow>
        (case (case r1 of Inl (Exception msg) \<Rightarrow> handler msg | _ \<Rightarrow> ([], r1)) of (cs2, r2) \<Rightarrow>
           (case fin of (cs3, r3) \<Rightarrow>
              (cs1 @ cs2 @ cs3, case r3 of Inl e \<Rightarrow> Inl e | Inr _ \<Rightarrow> r2))))"

text \<open>
  The scraper object. \<open>browser\<close> and \<open>playwright\<close> say whether the attribute holds a
  handle (\<open>True\<close>) or \<open>None\<close>.
\<close>

record scraper =
  headless :: bool
  debug :: bool
  browser :: bool
  playwright :: bool

record envelope =
  env_success :: bool
  env_data :: "merged option"
  env_error :: "str option"
  env_url :: str
  env_timestamp :: str

definition navigate_to_store :: "world \<Rightarrow> decimal_table \<Rightarrow> str \<Rightarrow> str run" where
  "navigate_to_store w dec u =
     and_then
       (if str_contains u (lit ''naver.me'')
        then and_then (call_value (Goto u DomContentLoaded) (goto_result w u DomContentLoaded))
               (\<lambda>page_url. and_then (call_unit (WaitForTimeout 2000) (wait_result w 2000))
                  (\<lambda>_. ret page_url))
        else ret u)
       (\<lambda>u1. call_value (Goto (to_pc_url dec u1) NetworkIdle)
                (goto_result w (to_pc_url dec u1) NetworkIdle))"

text \<open>The \<open>try\<close> block of \<open>scrape\<close>.\<close>

definition scrape_try :: "world \<Rightarrow> 'n bs4 \<Rightarrow> decimal_table \<Rightarrow> scraper \<Rightarrow> str \<Rightarrow> envelope run" where
  "scrape_try w bs dec self u =
     and_then (navigate_to_store w dec u) (\<lambda>final_url.
     and_then (if debug self then ([Print (FinalUrl final_url)], Inr ()) else ret ()) (\<lambda>_.
     and_then (call_unit (WaitForTimeout 3000) (wait_result w 3000)) (\<lambda>_.
     and_then (call_value Evaluate (evaluate_result w)) (\<lambda>extracted_data.
     and_then (call_value Content (content_result w)) (\<lambda>html_content.
     ret \<lparr> env_success = True,
           env_data = Some (merge_data extracted_data (extract_with_soup bs dec html_content)),
           env_error = None,
           env_url = final_url,
           env_timestamp = now_isoformat w \<rparr>)))))"

definition scrape_except :: "world \<Rightarrow> str \<Rightarrow> str \<Rightarrow> envelope run" where
  "scrape_except w u msg =
     ([Print (ScrapeFailed msg)],
      Inr \<lparr> env_success = False, env_data = None, env_error = Some msg, env_url = u,
            env_timestamp = now_isoformat w \<rparr>)"

text \<open>
  \<open>scrape\<close>. The context and the page are created before the \<open>try\<close> statement; with
  no browser, \<open>self.browser.new_context\<close> is an \<open>AttributeError\<close>.
\<close>

definition scrape :: "world \<Rightarrow> 'n bs4 \<Rightarrow> decimal_table \<Rightarrow> scraper \<Rightarrow> str \<Rightarrow> envelope run" where
  "scrape w bs dec self u =
     (if \<not> browser self
      then ([], Inl (Exception (lit ''AttributeError'')))
      else
        and_then (call_unit NewContext (new_context_result w)) (\<lambda>_.
        and_then (call_unit NewPage (new_page_result w)) (\<lambda>_.
          try_except_finally (scrape_try w bs dec self u) (scrape_except w u)
            (call_unit ContextClose (context_close_result w)))))"

text \<open>\<open>initialize\<close> sets the two attributes as it goes; it returns the object as well.\<close>

definition initialize :: "world \<Rightarrow> scraper \<Rightarrow> scraper \<times> unit run" where
  "initialize w self =
     (case start_result w of
        Some e \<Rightarrow> (self, ([PlaywrightStart], Inl e))
      | None \<Rightarrow>
          (case launch_result w of
             Some e \<Rightarrow> (self \<lparr> playwright := True \<rparr>,
                        ([PlaywrightStart, Launch (headless self)], Inl e))
           | None \<Rightarrow> (self \<lparr> playwright := True, browser := True \<rparr>,
                      ([PlaywrightStart, Launch (headless self)]
                         @ (if debug self then [Print BrowserReady] else []), Inr ()))))"

text \<open>
  \<open>close\<close>, the method that \<open>__aexit__\<close> awaits. No \<open>try\<close> surrounds the two calls:
  when closing the browser raises, the engine is not stopped.
\<close>

definition close :: "world \<Rightarrow> scraper \<Rightarrow> unit run" where
  "close w self =
     and_then (if browser self then call_unit BrowserClose (browser_close_result w) else ret ())
       (\<lambda>_. if playwright self then call_unit PlaywrightStop (stop_result w) else ret ())"

text \<open>
  \<open>scrape_store\<close>: \<open>async with SmartPlaceScraper(headless=True) as scraper\<close>.
  \<open>__aenter__\<close> is \<open>initialize\<close>; when it raises, the block and \<open>__aexit__\<close> do not
  run. \<open>__aexit__\<close> is \<open>close\<close> and returns \<open>None\<close>, so an exception of the block
  goes on, unless \<open>close\<close> raises one of its own.
\<close>

definition scrape_store :: "world \<Rightarrow> 'n bs4 \<Rightarrow> decimal_table \<Rightarrow> str \<Rightarrow> envelope run" where
  "scrape_store w bs dec u =
     (case initialize w \<lparr> headless = True, debug = False, browser = False, playwright = False \<rparr> of
        (self, cs1, Inl e) \<Rightarrow> (cs1, Inl e)
      | (self, cs1, Inr _) \<Rightarrow>
          (case scrape w bs dec self u of (cs2, r2) \<Rightarrow>
             (case close w self of (cs3, r3) \<Rightarrow>
                (cs1 @ cs2 @ cs3, case r3 of Inl e \<Rightarrow> Inl e | Inr _ \<Rightarrow> r2))))"

section \<open>Sample inputs\<close>

text \<open>The two candidate sets of the specification's examples.\<close>

definition kimchi_eval :: candidate where
  "kimchi_eval = \<lparr> basicInfo = Some [(lit ''name'', JStr (lit ''Store B''))],
     menuItems = Some [\<lparr> name = lit ''Kimchi Stew'', price = lit ''9000'' \<rparr>],
     reviews = Some [], images = Some [] \<rparr>"

definition kimchi_soup :: candidate where
  "kimchi_soup = \<lparr> basicInfo = Some [(lit ''name'', JStr (lit ''Store A''))],
     menuItems = Some [\<lparr> name = lit ''Kimchi Stew'', price = lit ''8500'' \<rparr>],
     reviews = Some [], images = None \<rparr>"


definition bibim_eval :: candidate where
  "bibim_eval = \<lparr> basicInfo = Some [],
     menuItems = Some [\<lparr> name = lit ''Bibimbap'', price = lit ''7000'' \<rparr>,
                       \<lparr> name = lit ''Kimchi Stew'', price = lit ''9000'' \<rparr>,
                       \<lparr> name = lit ''Bibimbap'', price = lit ''7500'' \<rparr>],
     reviews = Some [], images = Some [] \<rparr>"

text \<open>
  A world in which every call succeeds: a shortlink lands on the mobile page of place
  12345678, every other address is kept by the browser, and the in-page script finds
  nothing.
\<close>

definition empty_eval :: candidate where
  "empty_eval = \<lparr> basicInfo = Some [], menuItems = Some [], reviews = Some [],
     images = Some [] \<rparr>"

definition calm_world :: world where
  "calm_world = \<lparr>
     start_result = None, launch_result = None,
     new_context_result = None, new_page_result = None,
     goto_result = (\<lambda>u wu. if wu = DomContentLoaded
        then Inr (lit ''https://m.place.naver.com/restaurant/12345678/home'') else Inr u),
     wait_result = (\<lambda>ms. None),
     evaluate_result = Inr empty_eval,
     content_result = Inr [],
     context_close_result = None, browser_close_result = None, stop_result = None,
     now_isoformat = lit ''2024-01-01T00:00:00'' \<rparr>"

text \<open>
  A parsed page for the examples: what BeautifulSoup answers on a document with four
  menu items and three reviews. Node 0 is the document.
  \<^item> Menu item 1 has the name element 11 (\<open>Kimchi Stew\<close>) and the price element 12
    (\<open>8500\<close>); item 2 has a price element (\<open>5000\<close>) and no name element; item 3 has the
    name element 31 (\<open>Bibimbap\<close>) and no price element; item 4 has the name element
    41, which is empty (\<open><span class="lPzHi"></span>\<close>).
  \<^item> Review 5 has the rating element 51, whose text is the two Hangul syllables U+BCC4
    U+C810, a space, the digit 4 and U+C810, and the text element 52; review 6 has the
    rating element 61 with the same text around the digits 10, and the text element 62;
    review 7 has the text element 72 only.
\<close>

definition demo_select :: "nat \<Rightarrow> str \<Rightarrow> nat list" where
  "demo_select n sel =
     (if sel = lit ''li.E2jtL'' then (if n = 0 then [1, 2, 3, 4] else [])
      else if sel = lit ''li.pui__X35jYm'' then (if n = 0 then [5, 6, 7] else [])
      else if sel = lit ''span.lPzHi''
        then (if n = 1 then [11] else if n = 3 then [31] else if n = 4 then [41] else [])
      else if sel = lit ''div._3qFuX''
        then (if n = 1 then [12] else if n = 2 then [22] else [])
      else if sel = lit ''span.pui__bMWJiy''
        then (if n = 5 then [51] else if n = 6 then [61] else [])
      else if sel = lit ''a.pui__xtsQN-''
        then (if n = 5 then [52] else if n = 6 then [62] else if n = 7 then [72] else [])
      else [])"

definition demo_get_text :: "nat \<Rightarrow> bool \<Rightarrow> str" where
  "demo_get_text n strip =
     (if n = 11 then lit ''Kimchi Stew'' else if n = 12 then lit ''8500''
      else if n = 22 then lit ''5000'' else if n = 31 then lit ''Bibimbap''
      else if n = 51 then [0xBCC4, 0xC810, 0x20, 0x34, 0xC810]
      else if n = 61 then [0xBCC4, 0xC810, 0x20, 0x31, 0x30, 0xC810]
      else if n = 52 then lit ''good'' else if n = 62 then lit ''great''
      else if n = 72 then lit ''ok'' else [])"

definition demo_page :: "nat bs4" where
  "demo_page = \<lparr> bs_parse = (\<lambda>html. 0), bs_select = demo_select,
     bs_get_text = demo_get_text \<rparr>"

text \<open>
  The scraper object as \<open>initialize\<close> leaves it, and worlds in which one call fails:
  the navigation cannot resolve the host; the task is cancelled during the navigation;
  the navigation fails and closing the context fails as well; the page cannot be opened;
  closing the browser fails.
\<close>

definition ready_scraper :: scraper where
  "ready_scraper = \<lparr> headless = True, debug = False, browser = True, playwright = True \<rparr>"

definition mobile_url :: str where
  "mobile_url = lit ''https://m.place.naver.com/restaurant/12345678/home''"

definition dns_world :: world where
  "dns_world = calm_world \<lparr> goto_result :=
     (\<lambda>u wu. Inl (Exception (lit ''net::ERR_NAME_NOT_RESOLVED''))) \<rparr>"



definition no_page_world :: world where
  "no_page_world = calm_world \<lparr> new_page_result :=
     Some (Exception (lit ''Target closed'')) \<rparr>"

definition stuck_browser_world :: world where
  "stuck_browser_world = calm_world \<lparr> browser_close_result :=
     Some (Exception (lit ''Connection closed'')) \<rparr>"

section \<open>Lemmas on dictionaries\<close>

lemma keys_setitem:
  "map fst (dict_setitem d k v) = (if k \<in> fst ` set d then map fst d else map fst d @ [k])"
  by (induction d) force+

lemma keyset_setitem: "fst ` set (dict_setitem d k v) = insert k (fst ` set d)"
proof -
  have "set (map fst (dict_setitem d k v)) = insert k (set (map fst d))"
    unfolding keys_setitem by auto
  then show ?thesis by simp
qed

lemma find_append: "find P (xs @ ys) = (case find P xs of Some x \<Rightarrow> Some x | None \<Rightarrow> find P ys)"
  by (induction xs) auto

lemma map_of_setitem: "map_of (dict_setitem d k v) = (map_of d)(k := Some v)"
  by (induction d) auto

lemma distinct_setitem: "distinct (map fst d) \<Longrightarrow> distinct (map fst (dict_setitem d k v))"
  by (simp add: keys_setitem)

lemma set_first_occurrences: "set (first_occurrences xs) = set xs"
  by (induction xs) auto

lemma distinct_first_occurrences: "distinct (first_occurrences xs)"
  by (induction xs) (auto simp: set_first_occurrences)

lemma keys_foldl_by:
  "map fst (foldl (\<lambda>acc x. dict_setitem acc (key x) x) d xs) =
     map fst d @ filter (\<lambda>k. k \<notin> fst ` set d) (first_occurrences (map key xs))"
proof (induction xs arbitrary: d)
  case Nil
  show ?case by simp
next
  case (Cons x xs)
  show ?case
  proof (cases "key x \<in> fst ` set d")
    case True
    have "filter (\<lambda>k. k \<notin> fst ` set d) (filter (\<lambda>y. y \<noteq> key x) (first_occurrences (map key xs)))
        = filter (\<lambda>k. k \<notin> fst ` set d) (first_occurrences (map key xs))"
      using True by (auto intro!: filter_cong)
    with True show ?thesis
      using Cons.IH [of "dict_setitem d (key x) x"] by (simp add: keys_setitem keyset_setitem insert_absorb)
  next
    case False
    have s: "fst ` set (dict_setitem d (key x) x) = insert (key x) (fst ` set d)"
      by (rule keyset_setitem)
    have "filter (\<lambda>k. k \<notin> insert (key x) (fst ` set d)) (first_occurrences (map key xs))
        = filter (\<lambda>k. k \<notin> fst ` set d) (filter (\<lambda>y. y \<noteq> key x) (first_occurrences (map key xs)))"
      by (auto intro!: filter_cong)
    with False show ?thesis
      using Cons.IH [of "dict_setitem d (key x) x"] by (simp add: keys_setitem s)
  qed
qed

lemma dict_keys_dict_by: "dict_keys (dict_by key xs) = first_occurrences (map key xs)"
  using keys_foldl_by [of key "[]" xs] by (simp add: dict_keys_def dict_by_def)

lemma map_of_foldl_by:
  "map_of (foldl (\<lambda>acc x. dict_setitem acc (key x) x) d xs) k =
     (case find (\<lambda>x. key x = k) (rev xs) of Some x \<Rightarrow> Some x | None \<Rightarrow> map_of d k)"
proof (induction xs arbitrary: d)
  case Nil
  show ?case by simp
next
  case (Cons x xs)
  show ?case
    using Cons.IH [of "dict_setitem d (key x) x"]
    by (auto simp: map_of_setitem find_append split: option.splits)
qed


lemma sorted_first_occurrences:
  "sorted_wrt (\<lambda>a b. first_index xs a < first_index xs b) (first_occurrences xs)"
proof (induction xs)
  case Nil
  show ?case by simp
next
  case (Cons x xs)
  have "sorted_wrt (\<lambda>a b. first_index xs a < first_index xs b)
          (filter (\<lambda>y. y \<noteq> x) (first_occurrences xs))"
    using Cons.IH by (rule sorted_wrt_filter)
  then have "sorted_wrt (\<lambda>a b. first_index (x # xs) a < first_index (x # xs) b)
          (filter (\<lambda>y. y \<noteq> x) (first_occurrences xs))"
    by (rule sorted_wrt_mono_rel [rotated]) auto
  then show ?case by auto
qed

lemma set_setitem: "set (dict_setitem d k v) \<subseteq> insert (k, v) (set d)"
  by (induction d) (auto split: if_splits)

lemma entries_setitem:
  "\<forall>p \<in> set d. key (snd p) = fst p \<Longrightarrow> key v = k \<Longrightarrow>
   \<forall>p \<in> set (dict_setitem d k v). key (snd p) = fst p"
  using set_setitem [of d k v] by auto

lemma entries_foldl_by:
  "\<forall>p \<in> set d. key (snd p) = fst p \<Longrightarrow>
   \<forall>p \<in> set (foldl (\<lambda>acc x. dict_setitem acc (key x) x) d xs). key (snd p) = fst p"
proof (induction xs arbitrary: d)
  case Nil
  then show ?case by simp
next
  case (Cons x xs)
  have "\<forall>p \<in> set (dict_setitem d (key x) x). key (snd p) = fst p"
    using Cons.prems by (rule entries_setitem) simp
  then show ?case using Cons.IH by simp
qed

lemma keys_of_values_dict_by: "map key (dict_values (dict_by key xs)) = dict_keys (dict_by key xs)"
  using entries_foldl_by [of "[]" key xs]
  by (simp add: dict_values_def dict_keys_def dict_by_def)

lemma names_merged:
  "map name (merged_menuItems (merge_data e s)) =
     take 20 (first_occurrences (map name (get_or (menuItems e) [] @ get_or (menuItems s) [])))"
  by (simp add: merge_data_def Let_def take_map [symmetric] keys_of_values_dict_by
      dict_keys_dict_by del: map_append)

lemma distinct_dict_by: "distinct (dict_keys (dict_by key xs))"
  by (simp add: dict_keys_dict_by distinct_first_occurrences)

lemma dict_by_value_is_last:
  assumes "x \<in> set (dict_values (dict_by key xs))"
  shows "find (\<lambda>y. key y = key x) (rev xs) = Some x"
proof -
  obtain k where kx: "(k, x) \<in> set (dict_by key xs)"
    using assms by (auto simp: dict_values_def)
  have "key x = k"
    using entries_foldl_by [of "[]" key xs] kx by (auto simp: dict_by_def)
  moreover have "map_of (dict_by key xs) k = Some x"
    using kx distinct_dict_by [of key xs] by (simp add: dict_keys_def)
  ultimately show ?thesis
    using map_of_foldl_by [of key "[]" xs k] by (simp add: dict_by_def split: option.splits)
qed

lemma find_Some_set: "find P xs = Some x \<Longrightarrow> x \<in> set xs \<and> P x"
  by (induction xs) (auto split: if_splits)

lemma find_None_set: "find P xs = None \<Longrightarrow> x \<in> set xs \<Longrightarrow> \<not> P x"
  by (induction xs) (auto split: if_splits)

lemma last_occurrence_in_second:
  assumes "find (\<lambda>y. key y = key x) (rev (es @ ss)) = Some x" and "key x \<in> key ` set ss"
  shows "x \<in> set ss"
proof (cases "find (\<lambda>y. key y = key x) (rev ss)")
  case None
  with assms(2) show ?thesis by (auto dest: find_None_set [where x = "_"])
next
  case (Some y)
  with assms(1) have "y = x" by (simp add: find_append)
  with Some show ?thesis by (auto dest: find_Some_set)
qed

lemma dict_update_get:
  "map_of (dict_update d src) k =
     (case find (\<lambda>p. fst p = k) (rev src) of Some p \<Rightarrow> Some (snd p) | None \<Rightarrow> map_of d k)"
  unfolding dict_update_def
proof (induction src arbitrary: d)
  case Nil
  show ?case by simp
next
  case (Cons p src)
  show ?case
    using Cons.IH [of "dict_setitem d (fst p) (snd p)"]
    by (auto simp: map_of_setitem find_append case_prod_beta split: option.splits)
qed

lemma find_rev_distinct:
  "distinct (map fst src) \<Longrightarrow>
   (case find (\<lambda>p. fst p = k) (rev src) of Some p \<Rightarrow> Some (snd p) | None \<Rightarrow> None) = map_of src k"
proof (induction src)
  case Nil
  show ?case by simp
next
  case (Cons p src)
  then show ?case
    by (cases p) (auto simp: find_append split: option.splits dest!: find_Some_set
        intro: map_of_eq_None_iff [THEN iffD2, symmetric])
qed

lemma dict_update_get_distinct:
  "distinct (dict_keys src) \<Longrightarrow>
   dict_get (dict_update d src) k =
     (case dict_get src k of Some v \<Rightarrow> Some v | None \<Rightarrow> dict_get d k)"
proof -
  assume "distinct (dict_keys src)"
  then have m: "map_of src k =
      (case find (\<lambda>p. fst p = k) (rev src) of Some p \<Rightarrow> Some (snd p) | None \<Rightarrow> None)"
    using find_rev_distinct [of src k] by (simp add: dict_keys_def)
  show ?thesis
    unfolding dict_get_def dict_update_get m by (simp split: option.splits)
qed


section \<open>Reconciliation\<close>

lemma kimchi_merged:
  "merged_menuItems (merge_data kimchi_eval kimchi_soup) =
     [\<lparr> name = lit ''Kimchi Stew'', price = lit ''8500'' \<rparr>]"
  by (simp add: merge_data_def kimchi_eval_def kimchi_soup_def get_or_def dict_by_def
      dict_values_def Let_def)

text \<open>
  C1, as stated, fails: with eval's \<open>{Kimchi Stew, 9000}\<close> and markup's
  \<open>{Kimchi Stew, 8500}\<close> the one entry that the merge keeps is markup's. A store under
  a name that the dictionary already holds replaces the value.
\<close>

theorem merge_data_first_wins_counterexample:
  "merged_menuItems (merge_data kimchi_eval kimchi_soup) =
     [\<lparr> name = lit ''Kimchi Stew'', price = lit ''8500'' \<rparr>] \<and>
   merged_menuItems (merge_data kimchi_eval kimchi_soup) \<noteq>
     [\<lparr> name = lit ''Kimchi Stew'', price = lit ''9000'' \<rparr>]"
  by (simp add: merge_data_def kimchi_eval_def kimchi_soup_def get_or_def dict_by_def
      dict_values_def Let_def lit_def)

text \<open>
  C1, amended: the merged menu has at most one entry per name, and the entry kept for a
  name is the last one of that name in eval's list followed by markup's list; so when the
  name occurs in markup's list the entry kept is markup's.
\<close>

theorem merge_data_last_wins:
  "distinct (map name (merged_menuItems (merge_data eval_data soup_data))) \<and>
   (\<forall>x \<in> set (merged_menuItems (merge_data eval_data soup_data)).
      find (\<lambda>y. name y = name x)
        (rev (get_or (menuItems eval_data) [] @ get_or (menuItems soup_data) [])) = Some x \<and>
      (name x \<in> name ` set (get_or (menuItems soup_data) []) \<longrightarrow>
         x \<in> set (get_or (menuItems soup_data) [])))"
proof -
  let ?es = "get_or (menuItems eval_data) []"
  let ?ss = "get_or (menuItems soup_data) []"
  let ?m = "merged_menuItems (merge_data eval_data soup_data)"
  have m: "?m = take 20 (dict_values (dict_by name (?es @ ?ss)))"
    by (simp add: merge_data_def Let_def)
  have "distinct (map name ?m)"
    unfolding names_merged by (simp add: distinct_first_occurrences)
  moreover have "find (\<lambda>y. name y = name x) (rev (?es @ ?ss)) = Some x \<and>
      (name x \<in> name ` set ?ss \<longrightarrow> x \<in> set ?ss)" if "x \<in> set ?m" for x
  proof -
    from that have "x \<in> set (dict_values (dict_by name (?es @ ?ss)))"
      unfolding m by (rule in_set_takeD)
    then have f: "find (\<lambda>y. name y = name x) (rev (?es @ ?ss)) = Some x"
      by (rule dict_by_value_is_last)
    then show ?thesis
      using last_occurrence_in_second [of name x ?es ?ss] by blast
  qed
  ultimately show ?thesis by blast
qed

theorem merge_data_last_wins_witness:
  "distinct (map name (merged_menuItems (merge_data kimchi_eval kimchi_soup))) \<and>
   \<lparr> name = lit ''Kimchi Stew'', price = lit ''8500'' \<rparr>
     \<in> set (merged_menuItems (merge_data kimchi_eval kimchi_soup)) \<and>
   \<lparr> name = lit ''Kimchi Stew'', price = lit ''8500'' \<rparr>
     \<in> set (get_or (menuItems kimchi_soup) [])"
  using merge_data_last_wins [of kimchi_eval kimchi_soup]
  by (simp add: kimchi_merged) (simp add: kimchi_soup_def get_or_def)

text \<open>
  C10: the names of the merged menu are the names of eval's list followed by markup's
  list, each once, in the order of their first occurrences, cut to 20; a name that
  comes earlier in the merged menu has its first occurrence earlier in the concatenation.
\<close>

theorem merge_data_order:
  "map name (merged_menuItems (merge_data eval_data soup_data)) =
     take 20 (first_occurrences
       (map name (get_or (menuItems eval_data) [] @ get_or (menuItems soup_data) []))) \<and>
   sorted_wrt (\<lambda>a b.
       first_index (map name (get_or (menuItems eval_data) [] @ get_or (menuItems soup_data) [])) a
     < first_index (map name (get_or (menuItems eval_data) [] @ get_or (menuItems soup_data) [])) b)
     (map name (merged_menuItems (merge_data eval_data soup_data)))"
  unfolding names_merged
  using sorted_first_occurrences sorted_wrt_take by blast

theorem merge_data_order_witness:
  "map name (merged_menuItems (merge_data bibim_eval kimchi_soup)) =
     [lit ''Bibimbap'', lit ''Kimchi Stew''] \<and>
   first_index (map name (get_or (menuItems bibim_eval) [] @ get_or (menuItems kimchi_soup) []))
     (lit ''Bibimbap'') = 0 \<and>
   first_index (map name (get_or (menuItems bibim_eval) [] @ get_or (menuItems kimchi_soup) []))
     (lit ''Kimchi Stew'') = 1"
  using merge_data_order [of bibim_eval kimchi_soup]
  by (simp add: bibim_eval_def kimchi_soup_def get_or_def lit_def)

lemma dict_get_empty: "dict_get [] k = None"
  by (simp add: dict_get_def)

text \<open>
  C6: a field of the merged \<open>basicInfo\<close> has eval's value when eval sets it, and
  markup's value otherwise. (A Python dictionary has no repeated key.)
\<close>

theorem merge_data_basicInfo:
  assumes "distinct (dict_keys (get_or (basicInfo eval_data) []))"
    and "distinct (dict_keys (get_or (basicInfo soup_data) []))"
  shows "dict_get (merged_basicInfo (merge_data eval_data soup_data)) k =
     (case dict_get (get_or (basicInfo eval_data) []) k of
        Some v \<Rightarrow> Some v
      | None \<Rightarrow> dict_get (get_or (basicInfo soup_data) []) k)"
proof -
  have "merged_basicInfo (merge_data eval_data soup_data) =
      dict_update (dict_update [] (get_or (basicInfo soup_data) [])) (get_or (basicInfo eval_data) [])"
    by (simp add: merge_data_def Let_def)
  then show ?thesis
    using assms by (simp add: dict_update_get_distinct dict_get_empty split: option.splits)
qed

theorem merge_data_basicInfo_witness:
  "distinct (dict_keys (get_or (basicInfo kimchi_eval) [])) \<and>
   distinct (dict_keys (get_or (basicInfo kimchi_soup) [])) \<and>
   dict_get (get_or (basicInfo kimchi_soup) []) (lit ''name'') = Some (JStr (lit ''Store A'')) \<and>
   dict_get (get_or (basicInfo kimchi_eval) []) (lit ''name'') = Some (JStr (lit ''Store B'')) \<and>
   dict_get (merged_basicInfo (merge_data kimchi_eval kimchi_soup)) (lit ''name'')
     = Some (JStr (lit ''Store B''))"
proof -
  have e: "distinct (dict_keys (get_or (basicInfo kimchi_eval) []))"
    by (simp add: kimchi_eval_def get_or_def dict_keys_def)
  have s: "distinct (dict_keys (get_or (basicInfo kimchi_soup) []))"
    by (simp add: kimchi_soup_def get_or_def dict_keys_def)
  have a: "dict_get (get_or (basicInfo kimchi_soup) []) (lit ''name'') = Some (JStr (lit ''Store A''))"
    by (simp add: kimchi_soup_def get_or_def dict_get_def)
  have b: "dict_get (get_or (basicInfo kimchi_eval) []) (lit ''name'') = Some (JStr (lit ''Store B''))"
    by (simp add: kimchi_eval_def get_or_def dict_get_def)
  show ?thesis
    using merge_data_basicInfo [OF e s, of "lit ''name''"] e s a b by simp
qed


text \<open>
  C4: for every pair of candidate sets the merged record has at most 20 menu items, at
  most 10 reviews and at most 10 images.
\<close>

theorem merge_data_caps:
  "length (merged_menuItems (merge_data eval_data soup_data)) \<le> 20 \<and>
   length (merged_reviews (merge_data eval_data soup_data)) \<le> 10 \<and>
   length (merged_images (merge_data eval_data soup_data)) \<le> 10"
  by (simp add: merge_data_def Let_def)

section \<open>The place id and the rewritten URL\<close>

lemma search_digits_skip_run:
  "length (takeWhile (is_decimal dec) s) < n \<Longrightarrow>
   search_digits dec n s = search_digits dec n (dropWhile (is_decimal dec) s)"
proof (induction s)
  case Nil
  show ?case by simp
next
  case (Cons c cs)
  show ?case
  proof (cases "is_decimal dec c")
    case True
    with Cons.prems have "length (takeWhile (is_decimal dec) cs) < n" by simp
    with Cons.IH True Cons.prems show ?thesis by simp
  next
    case False
    then show ?thesis by simp
  qed
qed

lemma search_digits_first_long_run:
  "0 < n \<Longrightarrow> search_digits dec n s = first_long_run dec n s"
  unfolding first_long_run_def
proof (induction dec s rule: digit_runs.induct)
  case (1 dec)
  then show ?case by simp
next
  case (2 dec c cs)
  show ?case
  proof (cases "is_decimal dec c")
    case True
    show ?thesis
    proof (cases "n \<le> length (takeWhile (is_decimal dec) (c # cs))")
      case long: True
      with True show ?thesis by simp
    next
      case short: False
      with True have "length (takeWhile (is_decimal dec) cs) < n" by simp
      then have "search_digits dec n cs = search_digits dec n (dropWhile (is_decimal dec) cs)"
        by (rule search_digits_skip_run)
      with True short 2 show ?thesis by simp
    qed
  next
    case False
    with 2 show ?thesis by simp
  qed
qed

lemma search_digits_cong:
  "\<forall>c \<in> set s. is_decimal dec c = is_decimal dec' c \<Longrightarrow>
   search_digits dec n s = search_digits dec' n s"
proof (induction s)
  case Nil
  show ?case by simp
next
  case (Cons c cs)
  have "takeWhile (is_decimal dec) (c # cs) = takeWhile (is_decimal dec') (c # cs)"
    using Cons.prems by (intro takeWhile_cong) auto
  with Cons show ?case by (simp add: Let_def del: takeWhile.simps)
qed

lemma mobile_url_rewritten:
  "to_pc_url ascii_decimal (lit ''https://m.place.naver.com/restaurant/12345678/home'') =
     lit ''https://pcmap.place.naver.com/restaurant/12345678/home''"
  by (simp add: to_pc_url_def lit_def is_decimal_def ascii_decimal_def)

text \<open>
  C7: a URL that contains the mobile-site or the map-site host and a run of 8 or more
  digits is replaced by the desktop URL built from the first such run, every other URL is
  kept, and the address that \<open>_navigate_to_store\<close> navigates to is the result: of the
  input URL, or of the URL a shortlink resolved to. The mobile URL of place 12345678
  becomes its desktop URL, whatever the digits beyond ASCII are.
\<close>

theorem navigate_to_store_rewrites:
  "to_pc_url dec u =
     (if str_contains u (lit ''m.place.naver.com'') \<or> str_contains u (lit ''map.naver.com'')
      then (case first_long_run dec 8 u of
              Some r \<Rightarrow> lit ''https://pcmap.place.naver.com/restaurant/'' @ r @ lit ''/home''
            | None \<Rightarrow> u)
      else u) \<and>
   (\<not> str_contains u (lit ''naver.me'') \<longrightarrow>
      fst (navigate_to_store w dec u) = [Goto (to_pc_url dec u) NetworkIdle]) \<and>
   (str_contains u (lit ''naver.me'') \<and> goto_result w u DomContentLoaded = Inr resolved \<and>
    wait_result w 2000 = None \<longrightarrow>
      fst (navigate_to_store w dec u) =
        [Goto u DomContentLoaded, WaitForTimeout 2000, Goto (to_pc_url dec resolved) NetworkIdle]) \<and>
   ((\<forall>c \<in> set (lit ''https://m.place.naver.com/restaurant/12345678/home'').
        is_decimal dec c = is_decimal ascii_decimal c) \<longrightarrow>
      to_pc_url dec (lit ''https://m.place.naver.com/restaurant/12345678/home'') =
        lit ''https://pcmap.place.naver.com/restaurant/12345678/home'')"
proof -
  have "search_digits dec 8 u = first_long_run dec 8 u"
    by (rule search_digits_first_long_run) simp
  moreover have "to_pc_url dec (lit ''https://m.place.naver.com/restaurant/12345678/home'') =
      lit ''https://pcmap.place.naver.com/restaurant/12345678/home''"
    if "\<forall>c \<in> set (lit ''https://m.place.naver.com/restaurant/12345678/home'').
        is_decimal dec c = is_decimal ascii_decimal c"
  proof -
    have "search_digits dec 8 (lit ''https://m.place.naver.com/restaurant/12345678/home'') =
        search_digits ascii_decimal 8 (lit ''https://m.place.naver.com/restaurant/12345678/home'')"
      using that by (rule search_digits_cong)
    then have "to_pc_url dec (lit ''https://m.place.naver.com/restaurant/12345678/home'') =
        to_pc_url ascii_decimal (lit ''https://m.place.naver.com/restaurant/12345678/home'')"
      by (simp add: to_pc_url_def)
    then show ?thesis by (simp only: mobile_url_rewritten)
  qed
  ultimately show ?thesis
    by (simp add: to_pc_url_def navigate_to_store_def and_then_def ret_def call_value_def
        call_unit_def)
qed

lemma other_url_kept:
  "to_pc_url ascii_decimal (lit ''https://example.com/12345678'') =
     lit ''https://example.com/12345678''"
  by (simp add: to_pc_url_def lit_def)

theorem navigate_to_store_rewrites_witness:
  "\<not> str_contains (lit ''https://m.place.naver.com/restaurant/12345678/home'') (lit ''naver.me'') \<and>
   fst (navigate_to_store calm_world ascii_decimal
          (lit ''https://m.place.naver.com/restaurant/12345678/home'')) =
     [Goto (lit ''https://pcmap.place.naver.com/restaurant/12345678/home'') NetworkIdle] \<and>
   \<not> str_contains (lit ''https://example.com/12345678'') (lit ''naver.me'') \<and>
   fst (navigate_to_store calm_world ascii_decimal (lit ''https://example.com/12345678'')) =
     [Goto (lit ''https://example.com/12345678'') NetworkIdle] \<and>
   str_contains (lit ''https://naver.me/x'') (lit ''naver.me'') \<and>
   fst (navigate_to_store calm_world ascii_decimal (lit ''https://naver.me/x'')) =
     [Goto (lit ''https://naver.me/x'') DomContentLoaded, WaitForTimeout 2000,
      Goto (lit ''https://pcmap.place.naver.com/restaurant/12345678/home'') NetworkIdle]"
proof -
  have a: "\<not> str_contains (lit ''https://m.place.naver.com/restaurant/12345678/home'')
             (lit ''naver.me'')"
    by (simp add: lit_def)
  have b: "\<not> str_contains (lit ''https://example.com/12345678'') (lit ''naver.me'')"
    by (simp add: lit_def)
  have c: "str_contains (lit ''https://naver.me/x'') (lit ''naver.me'')"
    by (simp add: lit_def)
  have d: "goto_result calm_world (lit ''https://naver.me/x'') DomContentLoaded =
      Inr (lit ''https://m.place.naver.com/restaurant/12345678/home'')"
    by (simp add: calm_world_def)
  have e: "wait_result calm_world 2000 = None"
    by (simp add: calm_world_def)
  show ?thesis
    using a b c
      navigate_to_store_rewrites [of ascii_decimal
        "lit ''https://m.place.naver.com/restaurant/12345678/home''" calm_world]
      navigate_to_store_rewrites [of ascii_decimal "lit ''https://example.com/12345678''"
        calm_world]
      navigate_to_store_rewrites [of ascii_decimal "lit ''https://naver.me/x''" calm_world
        "lit ''https://m.place.naver.com/restaurant/12345678/home''"]
      d e
    by (simp only: mobile_url_rewritten other_url_kept simp_thms)
qed

section \<open>Markup extraction: ratings and menu items\<close>









lemma set_dict_by_values: "set (dict_values (dict_by key xs)) \<subseteq> set xs"
proof -
  have "snd ` set (foldl (\<lambda>acc x. dict_setitem acc (key x) x) d xs) \<subseteq> snd ` set d \<union> set xs"
    for d :: "('b \<times> 'a) list"
  proof (induction xs arbitrary: d)
    case Nil
    show ?case by simp
  next
    case (Cons x xs)
    have "snd ` set (dict_setitem d (key x) x) \<subseteq> insert x (snd ` set d)"
      using set_setitem [of d "key x" x] by force
    with Cons.IH [of "dict_setitem d (key x) x"] show ?case by auto
  qed
  from this [of "[]"] show ?thesis
    by (simp add: dict_values_def dict_by_def)
qed

lemma map_filter_as_map:
  "(\<And>x. f x = (if p x then Some (g x) else None)) \<Longrightarrow>
   List.map_filter f xs = map g (filter p xs)"
  by (induction xs) auto

text \<open>
  C9, as stated, fails: the name element of a menu item can be there and be empty, and
  the entry is kept with the empty string as its name.
\<close>

theorem menu_name_nonempty_counterexample:
  "merged_menuItems (merge_data empty_eval (extract_with_soup demo_page ascii_decimal [])) =
     [\<lparr> name = lit ''Kimchi Stew'', price = lit ''8500'' \<rparr>,
      \<lparr> name = lit ''Bibimbap'', price = [] \<rparr>,
      \<lparr> name = [], price = [] \<rparr>] \<and>
   \<not> list_all (\<lambda>m. name m \<noteq> []) (merged_menuItems
      (merge_data empty_eval (extract_with_soup demo_page ascii_decimal [])))"
  by (simp add: merge_data_def empty_eval_def extract_with_soup_def demo_page_def
      demo_select_def demo_get_text_def soup_menu_item_def select_one_def get_or_def
      dict_by_def dict_values_def Let_def lit_def)

text \<open>
  C9, amended: markup extraction looks at the first 20 list items, skips an item whose
  name element is absent and makes one entry of every other item, in order: its name is
  the stripped text of the name element (which may be empty), its price the stripped text
  of the price element, or the empty string when that element is absent. Every entry of
  the merged menu is an entry of eval's list or of markup's list.
\<close>

theorem soup_menu_items:
  "get_or (menuItems (extract_with_soup bs dec html)) [] =
     map (\<lambda>item. \<lparr> name = (case select_one bs item (lit ''span.lPzHi'') of
                               Some ne \<Rightarrow> bs_get_text bs ne True | None \<Rightarrow> []),
                     price = (case select_one bs item (lit ''div._3qFuX'') of
                               Some pe \<Rightarrow> bs_get_text bs pe True | None \<Rightarrow> []) \<rparr>)
       (filter (\<lambda>item. select_one bs item (lit ''span.lPzHi'') \<noteq> None)
          (take 20 (bs_select bs (bs_parse bs html) (lit ''li.E2jtL'')))) \<and>
   set (merged_menuItems (merge_data eval_data soup_data)) \<subseteq>
     set (get_or (menuItems eval_data) []) \<union> set (get_or (menuItems soup_data) [])"
proof -
  have "List.map_filter (soup_menu_item bs) items =
      map (\<lambda>item. \<lparr> name = (case select_one bs item (lit ''span.lPzHi'') of
                               Some ne \<Rightarrow> bs_get_text bs ne True | None \<Rightarrow> []),
                     price = (case select_one bs item (lit ''div._3qFuX'') of
                               Some pe \<Rightarrow> bs_get_text bs pe True | None \<Rightarrow> []) \<rparr>)
       (filter (\<lambda>item. select_one bs item (lit ''span.lPzHi'') \<noteq> None) items)" for items
    by (rule map_filter_as_map) (simp add: soup_menu_item_def Let_def split: option.splits)
  moreover have "set (merged_menuItems (merge_data eval_data soup_data)) \<subseteq>
     set (get_or (menuItems eval_data) []) \<union> set (get_or (menuItems soup_data) [])"
    using set_dict_by_values [of name "get_or (menuItems eval_data) [] @ get_or (menuItems soup_data) []"]
    by (auto simp: merge_data_def Let_def dest!: in_set_takeD)
  ultimately show ?thesis
    by (simp add: extract_with_soup_def get_or_def Let_def)
qed

theorem soup_menu_items_witness:
  "get_or (menuItems (extract_with_soup demo_page ascii_decimal [])) [] =
     [\<lparr> name = lit ''Kimchi Stew'', price = lit ''8500'' \<rparr>,
      \<lparr> name = lit ''Bibimbap'', price = [] \<rparr>,
      \<lparr> name = [], price = [] \<rparr>] \<and>
   set (merged_menuItems (merge_data kimchi_eval kimchi_soup)) \<subseteq>
     {\<lparr> name = lit ''Kimchi Stew'', price = lit ''9000'' \<rparr>,
      \<lparr> name = lit ''Kimchi Stew'', price = lit ''8500'' \<rparr>}"
proof -
  have m: "map (\<lambda>item. \<lparr> name = (case select_one demo_page item (lit ''span.lPzHi'') of
                               Some ne \<Rightarrow> bs_get_text demo_page ne True | None \<Rightarrow> []),
                     price = (case select_one demo_page item (lit ''div._3qFuX'') of
                               Some pe \<Rightarrow> bs_get_text demo_page pe True | None \<Rightarrow> []) \<rparr>)
       (filter (\<lambda>item. select_one demo_page item (lit ''span.lPzHi'') \<noteq> None)
          (take 20 (bs_select demo_page (bs_parse demo_page []) (lit ''li.E2jtL'')))) =
     [\<lparr> name = lit ''Kimchi Stew'', price = lit ''8500'' \<rparr>,
      \<lparr> name = lit ''Bibimbap'', price = [] \<rparr>,
      \<lparr> name = [], price = [] \<rparr>]"
    by (simp add: demo_page_def demo_select_def demo_get_text_def select_one_def lit_def)
  have s: "set (get_or (menuItems kimchi_eval) []) \<union> set (get_or (menuItems kimchi_soup) []) =
     {\<lparr> name = lit ''Kimchi Stew'', price = lit ''9000'' \<rparr>,
      \<lparr> name = lit ''Kimchi Stew'', price = lit ''8500'' \<rparr>}"
    by (auto simp: kimchi_eval_def kimchi_soup_def get_or_def)
  show ?thesis
    using soup_menu_items [of demo_page ascii_decimal "[]" kimchi_eval kimchi_soup]
    unfolding m s .
qed

section \<open>The session\<close>

lemma and_then_Inr:
  "snd (and_then m f) = Inr y \<longleftrightarrow> (\<exists>x. snd m = Inr x \<and> snd (f x) = Inr y)"
  by (cases m) (auto simp: and_then_def split: sum.splits prod.splits)

lemma and_then_Inl:
  "snd (and_then m f) = Inl e \<longleftrightarrow>
     snd m = Inl e \<or> (\<exists>x. snd m = Inr x \<and> snd (f x) = Inl e)"
  by (cases m) (auto simp: and_then_def split: sum.splits prod.splits)

lemma snd_and_then:
  "snd (and_then m f) = (case snd m of Inl e \<Rightarrow> Inl e | Inr x \<Rightarrow> snd (f x))"
  by (cases m) (auto simp: and_then_def split: sum.splits prod.splits)

lemma snd_ret: "snd (ret x) = Inr x"
  by (simp add: ret_def)

lemma snd_call_unit: "snd (call_unit c r) = (case r of None \<Rightarrow> Inr () | Some e \<Rightarrow> Inl e)"
  by (simp add: call_unit_def)

lemma snd_call_value: "snd (call_value c r) = r"
  by (simp add: call_value_def)

lemma scrape_try_returns:
  assumes "snd (scrape_try w bs dec self u) = Inr env"
  shows "env_success env \<and> env_data env \<noteq> None \<and> env_error env = None"
  using assms unfolding scrape_try_def and_then_Inr snd_ret by auto

lemma snd_try_except_finally:
  "snd (try_except_finally body handler fin) =
     (case snd fin of
        Inl e \<Rightarrow> Inl e
      | Inr _ \<Rightarrow> (case snd body of
                    Inl (Exception msg) \<Rightarrow> snd (handler msg)
                  | Inl (BaseOnly msg) \<Rightarrow> Inl (BaseOnly msg)
                  | Inr x \<Rightarrow> Inr x))"
  by (cases body; cases fin)
    (auto simp: try_except_finally_def split: sum.splits exc.splits prod.splits)

lemma snd_scrape:
  "snd (scrape w bs dec self u) =
     (if \<not> browser self then Inl (Exception (lit ''AttributeError''))
      else case new_context_result w of Some e \<Rightarrow> Inl e | None \<Rightarrow>
        (case new_page_result w of Some e \<Rightarrow> Inl e | None \<Rightarrow>
          (case context_close_result w of Some e \<Rightarrow> Inl e | None \<Rightarrow>
            (case snd (scrape_try w bs dec self u) of
               Inl (Exception msg) \<Rightarrow> snd (scrape_except w u msg)
             | Inl (BaseOnly msg) \<Rightarrow> Inl (BaseOnly msg)
             | Inr env \<Rightarrow> Inr env))))"
  by (simp add: scrape_def snd_and_then snd_call_unit snd_try_except_finally
      split: option.splits)

text \<open>
  C2: an envelope that \<open>scrape\<close> returns has either \<open>success\<close> true, \<open>data\<close> present
  and \<open>error\<close> absent, or \<open>success\<close> false, \<open>error\<close> present and \<open>data\<close> absent. It
  returns one whenever the context and the page can be opened and closed and no call
  raises an exception outside \<open>Exception\<close>.
\<close>

theorem scrape_envelope_shape:
  "(snd (scrape w bs dec self u) = Inr env \<longrightarrow>
      (env_success env \<and> env_data env \<noteq> None \<and> env_error env = None) \<or>
      (\<not> env_success env \<and> env_data env = None \<and> env_error env \<noteq> None)) \<and>
   (browser self \<and> new_context_result w = None \<and> new_page_result w = None \<and>
    context_close_result w = None \<and>
    (\<forall>msg. snd (scrape_try w bs dec self u) \<noteq> Inl (BaseOnly msg)) \<longrightarrow>
      (\<exists>env'. snd (scrape w bs dec self u) = Inr env'))"
proof -
  have shape: "(env_success env \<and> env_data env \<noteq> None \<and> env_error env = None) \<or>
      (\<not> env_success env \<and> env_data env = None \<and> env_error env \<noteq> None)"
    if r: "snd (scrape w bs dec self u) = Inr env"
  proof (cases "snd (scrape_try w bs dec self u)")
    case (Inr env')
    with r have "env' = env"
      by (simp add: snd_scrape split: if_splits option.splits)
    with Inr show ?thesis
      using scrape_try_returns [of w bs dec self u env] by simp
  next
    case (Inl e)
    with r show ?thesis
      by (cases e) (auto simp: snd_scrape scrape_except_def split: if_splits option.splits)
  qed
  have total: "\<exists>env'. snd (scrape w bs dec self u) = Inr env'"
    if "browser self" "new_context_result w = None" "new_page_result w = None"
      "context_close_result w = None"
      "\<forall>msg. snd (scrape_try w bs dec self u) \<noteq> Inl (BaseOnly msg)"
    using that
    by (auto simp: snd_scrape scrape_except_def split: sum.splits exc.splits)
  from shape total show ?thesis by blast
qed

lemma ready_fields:
  "browser ready_scraper" "playwright ready_scraper" "\<not> debug ready_scraper"
  by (simp_all add: ready_scraper_def)

lemma calm_fields:
  "new_context_result calm_world = None" "new_page_result calm_world = None"
  "context_close_result calm_world = None"
  "now_isoformat calm_world = lit ''2024-01-01T00:00:00''"
  by (simp_all add: calm_world_def)

lemma dns_fields:
  "new_context_result dns_world = None" "new_page_result dns_world = None"
  "context_close_result dns_world = None"
  "now_isoformat dns_world = lit ''2024-01-01T00:00:00''"
  by (simp_all add: dns_world_def calm_world_def)



lemma mobile_url_direct: "\<not> str_contains mobile_url (lit ''naver.me'')"
  by (simp add: mobile_url_def lit_def)

lemma mobile_url_to_pc:
  "to_pc_url ascii_decimal mobile_url =
     lit ''https://pcmap.place.naver.com/restaurant/12345678/home''"
  unfolding mobile_url_def by (rule mobile_url_rewritten)

lemma calm_scrape_try:
  "snd (scrape_try calm_world demo_page ascii_decimal ready_scraper mobile_url) =
     Inr \<lparr> env_success = True,
           env_data = Some (merge_data empty_eval (extract_with_soup demo_page ascii_decimal [])),
           env_error = None,
           env_url = lit ''https://pcmap.place.naver.com/restaurant/12345678/home'',
           env_timestamp = lit ''2024-01-01T00:00:00'' \<rparr>"
  by (simp add: scrape_try_def navigate_to_store_def mobile_url_direct mobile_url_to_pc
      and_then_def ret_def call_value_def call_unit_def calm_world_def ready_scraper_def)

lemma dns_scrape_try:
  "scrape_try dns_world demo_page ascii_decimal ready_scraper mobile_url =
     ([Goto (lit ''https://pcmap.place.naver.com/restaurant/12345678/home'') NetworkIdle],
      Inl (Exception (lit ''net::ERR_NAME_NOT_RESOLVED'')))"
  by (simp add: scrape_try_def navigate_to_store_def mobile_url_direct mobile_url_to_pc
      and_then_def ret_def call_value_def dns_world_def calm_world_def)



theorem scrape_envelope_shape_witness:
  "snd (scrape calm_world demo_page ascii_decimal ready_scraper mobile_url) =
     Inr \<lparr> env_success = True,
           env_data = Some (merge_data empty_eval (extract_with_soup demo_page ascii_decimal [])),
           env_error = None,
           env_url = lit ''https://pcmap.place.naver.com/restaurant/12345678/home'',
           env_timestamp = lit ''2024-01-01T00:00:00'' \<rparr> \<and>
   snd (scrape dns_world demo_page ascii_decimal ready_scraper mobile_url) =
     Inr \<lparr> env_success = False, env_data = None,
           env_error = Some (lit ''net::ERR_NAME_NOT_RESOLVED''),
           env_url = mobile_url,
           env_timestamp = lit ''2024-01-01T00:00:00'' \<rparr> \<and>
   browser ready_scraper \<and> new_context_result calm_world = None \<and>
   new_page_result calm_world = None \<and> context_close_result calm_world = None \<and>
   snd (scrape_try calm_world demo_page ascii_decimal ready_scraper mobile_url) =
     Inr \<lparr> env_success = True,
           env_data = Some (merge_data empty_eval (extract_with_soup demo_page ascii_decimal [])),
           env_error = None,
           env_url = lit ''https://pcmap.place.naver.com/restaurant/12345678/home'',
           env_timestamp = lit ''2024-01-01T00:00:00'' \<rparr>"
proof -
  have a: "snd (scrape calm_world demo_page ascii_decimal ready_scraper mobile_url) =
     Inr \<lparr> env_success = True,
           env_data = Some (merge_data empty_eval (extract_with_soup demo_page ascii_decimal [])),
           env_error = None,
           env_url = lit ''https://pcmap.place.naver.com/restaurant/12345678/home'',
           env_timestamp = lit ''2024-01-01T00:00:00'' \<rparr>"
    by (simp add: snd_scrape calm_scrape_try ready_fields calm_fields)
  have b: "snd (scrape dns_world demo_page ascii_decimal ready_scraper mobile_url) =
     Inr \<lparr> env_success = False, env_data = None,
           env_error = Some (lit ''net::ERR_NAME_NOT_RESOLVED''),
           env_url = mobile_url,
           env_timestamp = lit ''2024-01-01T00:00:00'' \<rparr>"
    by (simp add: snd_scrape dns_scrape_try scrape_except_def ready_fields dns_fields)
  show ?thesis
    using scrape_envelope_shape [of calm_world demo_page ascii_decimal ready_scraper mobile_url
        "\<lparr> env_success = True,
           env_data = Some (merge_data empty_eval (extract_with_soup demo_page ascii_decimal [])),
           env_error = None,
           env_url = lit ''https://pcmap.place.naver.com/restaurant/12345678/home'',
           env_timestamp = lit ''2024-01-01T00:00:00'' \<rparr>"] a b calm_scrape_try
    by (simp add: ready_fields calm_fields)
qed


lemma scrape_try_raises:
  "snd (scrape_try w bs dec self u) = Inl e \<longleftrightarrow>
     snd (navigate_to_store w dec u) = Inl e \<or>
     (\<exists>final_url. snd (navigate_to_store w dec u) = Inr final_url \<and>
        (wait_result w 3000 = Some e \<or>
         wait_result w 3000 = None \<and>
           (evaluate_result w = Inl e \<or>
            (\<exists>extracted. evaluate_result w = Inr extracted \<and> content_result w = Inl e))))"
  by (cases "snd (navigate_to_store w dec u)")
    (auto simp: scrape_try_def snd_and_then snd_ret snd_call_unit snd_call_value
      split: option.splits sum.splits)



section \<open>Release of the context, the browser and the engine\<close>

lemma fst_and_then:
  "fst (and_then m f) =
     (case snd m of Inl e \<Rightarrow> fst m | Inr x \<Rightarrow> fst m @ fst (f x))"
  by (cases m) (auto simp: and_then_def split: sum.splits prod.splits)

lemma fst_try_except_finally:
  "\<exists>cs. fst (try_except_finally body handler (call_unit c r)) = cs @ [c]"
  by (cases body) (auto simp: try_except_finally_def call_unit_def split: prod.splits)

text \<open>
  Once the context and the page are open, every way out of \<open>scrape\<close> closes the context
  last; and \<open>close\<close> closes the browser and stops the engine when closing the browser
  returns.
\<close>

lemma scrape_closes_context:
  assumes "browser self" and "new_context_result w = None" and "new_page_result w = None"
  shows "\<exists>cs. fst (scrape w bs dec self u) = [NewContext, NewPage] @ cs @ [ContextClose]"
proof -
  obtain cs where "fst (try_except_finally (scrape_try w bs dec self u) (scrape_except w u)
      (call_unit ContextClose (context_close_result w))) = cs @ [ContextClose]"
    using fst_try_except_finally by blast
  then show ?thesis
    using assms by (simp add: scrape_def fst_and_then call_unit_def)
qed

lemma close_releases:
  assumes "browser self" and "playwright self" and "browser_close_result w = None"
  shows "fst (close w self) = [BrowserClose, PlaywrightStop]"
  using assms by (simp add: close_def and_then_def call_unit_def)

lemma scrape_store_exit_closes:
  assumes "start_result w = None" and "launch_result w = None"
  shows "fst (scrape_store w bs dec u) =
     [PlaywrightStart, Launch True]
       @ fst (scrape w bs dec
                \<lparr> headless = True, debug = False, browser = True, playwright = True \<rparr> u)
       @ BrowserClose # (if browser_close_result w = None then [PlaywrightStop] else [])"
  using assms
  by (simp add: scrape_store_def initialize_def close_def and_then_def call_unit_def ret_def
      split: prod.splits option.splits)

text \<open>
  C3 holds for the \<open>try\<close> block only. The page is opened before the \<open>try\<close> statement:
  when opening it raises, \<open>scrape\<close> is left with the context open and never closed.
  \<open>close\<close> has no \<open>finally\<close> either: when closing the browser raises, the engine is
  not stopped.
\<close>

theorem scrape_leaves_context_open:
  "scrape no_page_world demo_page ascii_decimal ready_scraper mobile_url =
     ([NewContext, NewPage], Inl (Exception (lit ''Target closed''))) \<and>
   ContextClose \<notin> set (fst (scrape no_page_world demo_page ascii_decimal ready_scraper mobile_url)) \<and>
   close stuck_browser_world ready_scraper =
     ([BrowserClose], Inl (Exception (lit ''Connection closed''))) \<and>
   PlaywrightStop \<notin> set (fst (close stuck_browser_world ready_scraper))"
  by (simp add: scrape_def close_def and_then_def call_unit_def no_page_world_def
      stuck_browser_world_def calm_world_def ready_scraper_def)

end
